theory Spec2Isabelle
  imports Main "HOL-Library.Sublist" "HOL-Library.Multiset"
begin

section \<open>JavaScript strings and the regular expressions of the validator\<close>

text \<open>
  A JavaScript string is a sequence of UTF-16 code units. The model covers the texts whose
  code units are below 256, one \<^typ>\<open>char\<close> per code unit. On that range the class
  \<^verbatim>\<open>\s\<close> (and what \<^verbatim>\<open>trim\<close> strips) is tab, line feed, vertical tab, form feed,
  carriage return, space and the no-break space; the line terminators that
  \<^verbatim>\<open>.\<close> excludes are line feed and carriage return; \<^verbatim>\<open>toLowerCase\<close> moves
  A-Z and the Latin-1 capitals (0xC0-0xDE except the multiplication sign) up by 32; in
  all of these the bit of value 32 is clear, so adding 32 sets it.
\<close>

definition isWhiteSpace :: "char \<Rightarrow> bool" where
  "isWhiteSpace c \<longleftrightarrow>
     c \<in> {CHR 0x09, CHR 0x0A, CHR 0x0B, CHR 0x0C, CHR 0x0D, CHR '' '', CHR 0xA0}"

definition isLineTerminator :: "char \<Rightarrow> bool" where
  "isLineTerminator c \<longleftrightarrow> c \<in> {CHR 0x0A, CHR 0x0D}"

fun add32 :: "char \<Rightarrow> char" where
  "add32 (Char b0 b1 b2 b3 b4 b5 b6 b7) = Char b0 b1 b2 b3 b4 True b6 b7"

definition lowerChar :: "char \<Rightarrow> char" where
  "lowerChar c =
     (let n = (of_char c :: nat)
      in if (65 \<le> n \<and> n \<le> 90) \<or> (192 \<le> n \<and> n \<le> 222 \<and> n \<noteq> 215)
         then add32 c else c)"

definition toLowerCase :: "string \<Rightarrow> string" where
  "toLowerCase s = map lowerChar s"

definition trim :: "string \<Rightarrow> string" where
  "trim s = rev (dropWhile isWhiteSpace (rev (dropWhile isWhiteSpace s)))"

text \<open>
  The regular expressions of the source use literals, the classes \<^verbatim>\<open>\s\<close> and
  \<^verbatim>\<open>.\<close> (once, starred or plussed), one negative lookahead over literal alternatives
  and the anchor \<^verbatim>\<open>^\<close>. No pattern carries a flag, so \<^verbatim>\<open>test\<close> is stateless:
  it answers whether some match exists (from the start when anchored, from any
  position otherwise).
\<close>

datatype cclass = Space | Dot

datatype atom = Lit string | One cclass | Star cclass | Plus cclass | NotAhead "string list"

datatype pattern = Search "atom list" | AtStart "atom list"

fun in_class :: "cclass \<Rightarrow> char \<Rightarrow> bool" where
  "in_class Space c = isWhiteSpace c"
| "in_class Dot c = (\<not> isLineTerminator c)"

fun matches :: "atom list \<Rightarrow> string \<Rightarrow> bool" where
  "matches [] s = True"
| "matches (Lit l # as) s = (prefix l s \<and> matches as (drop (length l) s))"
| "matches (One c # as) [] = False"
| "matches (One c # as) (x # xs) = (in_class c x \<and> matches as xs)"
| "matches (Star c # as) [] = matches as []"
| "matches (Star c # as) (x # xs) =
     ((in_class c x \<and> matches (Star c # as) xs) \<or> matches as (x # xs))"
| "matches (Plus c # as) [] = False"
| "matches (Plus c # as) (x # xs) = (in_class c x \<and> matches (Star c # as) xs)"
| "matches (NotAhead ls # as) s = ((\<forall>l \<in> set ls. \<not> prefix l s) \<and> matches as s)"

fun search :: "atom list \<Rightarrow> string \<Rightarrow> bool" where
  "search as [] = matches as []"
| "search as (x # xs) = (matches as (x # xs) \<or> search as xs)"

fun test :: "pattern \<Rightarrow> string \<Rightarrow> bool" where
  "test (Search as) s = search as s"
| "test (AtStart as) s = matches as s"

section \<open>The validator\<close>

record validation =
  isValid :: bool
  isReadOnly :: bool
  error :: "string option"

definition dangerousPatterns :: "pattern list" where
  "dangerousPatterns =
     [Search [Lit ''pragma'', Plus Space,
              NotAhead [''table_info'', ''schema_version'', ''user_version'']],
      Search [Lit ''attach'', Plus Space, Lit ''database''],
      Search [Lit ''detach'', Plus Space, Lit ''database'']]"

definition readOnlyPatterns :: "pattern list" where
  "readOnlyPatterns =
     [AtStart [Lit ''select'', One Space],
      AtStart [Lit ''with'', One Space, Star Dot, Lit ''select'', One Space],
      AtStart [Lit ''pragma'', Plus Space, Lit ''table_info''],
      AtStart [Lit ''pragma'', Plus Space, Lit ''schema_version''],
      AtStart [Lit ''pragma'', Plus Space, Lit ''user_version'']]"

definition validateSqlQuery :: "string \<Rightarrow> validation" where
  "validateSqlQuery sql =
     (let trimmedSql = toLowerCase (trim sql)
      in if list_ex (\<lambda>p. test p trimmedSql) dangerousPatterns
         then \<lparr>isValid = False, isReadOnly = False,
               error = Some ''Dangerous SQL operation detected''\<rparr>
         else \<lparr>isValid = True,
               isReadOnly = list_ex (\<lambda>p. test p trimmedSql) readOnlyPatterns,
               error = None\<rparr>)"

section \<open>JavaScript values, errors and the response envelope\<close>

text \<open>
  Values bound as parameters, rows returned by the driver and the objects handed to
  \<^verbatim>\<open>JSON.stringify\<close> are JSON values; numbers are integers. An object is the list of
  its properties, a row the list of its columns.
\<close>

datatype json = JNull | JBool bool | JNum int | JStr string
  | JArr "json list" | JObj "(string \<times> json) list"

type_synonym row = "(string \<times> json) list"

text \<open>
  What a \<^verbatim>\<open>throw\<close> carries: an \<^verbatim>\<open>Error\<close> with its message, or any other value,
  kept as what \<^verbatim>\<open>String\<close> makes of it.
\<close>

datatype thrown = Error string | Thrown string

fun errorMessage :: "thrown \<Rightarrow> string" where
  "errorMessage (Error m) = m"
| "errorMessage (Thrown v) = v"

text \<open>
  A content block of type text holds either a given text or \<^verbatim>\<open>JSON.stringify(v, null, 2)\<close>,
  kept as the value \<open>v\<close> that is serialised.
\<close>

datatype block = Text string | Stringify json

record response =
  content :: "block list"
  isError :: bool

definition handleDatabaseError :: "thrown \<Rightarrow> response" where
  "handleDatabaseError e =
     \<lparr>content = [Text (''Database error: '' @ errorMessage e)], isError = True\<rparr>"

fun join :: "string \<Rightarrow> string list \<Rightarrow> string" where
  "join sep [] = []"
| "join sep [x] = x"
| "join sep (x # y # ys) = x @ sep @ join sep (y # ys)"

function show_nat :: "nat \<Rightarrow> string" where
  "show_nat n =
     (if n < 10 then [''0123456789'' ! n]
      else show_nat (n div 10) @ [''0123456789'' ! (n mod 10)])"
  by pat_completeness auto
termination
  by (relation "measure id") auto

definition show_int :: "int \<Rightarrow> string" where
  "show_int i = (if i < 0 then CHR ''-'' # show_nat (nat (- i)) else show_nat (nat i))"

text \<open>Template-literal conversion and truthiness of a property that may be absent.\<close>

fun ToString :: "json \<Rightarrow> string"
  and elementString :: "json \<Rightarrow> string" where
  "ToString JNull = ''null''"
| "ToString (JBool b) = (if b then ''true'' else ''false'')"
| "ToString (JNum n) = show_int n"
| "ToString (JStr s) = s"
| "ToString (JArr xs) = join '','' (map elementString xs)"
| "ToString (JObj ps) = ''[object Object]''"
| "elementString JNull = []"
| "elementString (JBool b) = ToString (JBool b)"
| "elementString (JNum n) = ToString (JNum n)"
| "elementString (JStr s) = ToString (JStr s)"
| "elementString (JArr xs) = ToString (JArr xs)"
| "elementString (JObj ps) = ToString (JObj ps)"

fun template :: "json option \<Rightarrow> string" where
  "template None = ''undefined''"
| "template (Some v) = ToString v"

fun truthy :: "json option \<Rightarrow> bool" where
  "truthy None = False"
| "truthy (Some JNull) = False"
| "truthy (Some (JBool b)) = b"
| "truthy (Some (JNum n)) = (n \<noteq> 0)"
| "truthy (Some (JStr s)) = (s \<noteq> [])"
| "truthy (Some (JArr xs)) = True"
| "truthy (Some (JObj ps)) = True"

definition formatTableInfo :: "row list \<Rightarrow> string" where
  "formatTableInfo columns =
     join [CHR 0x0A]
       (map (\<lambda>col. template (map_of col ''name'') @ '': '' @ template (map_of col ''type'')
                @ (if truthy (map_of col ''notnull'') then '' NOT NULL'' else [])
                @ (if truthy (map_of col ''pk'') then '' PRIMARY KEY'' else [])
                @ (if truthy (map_of col ''dflt_value'')
                   then '' DEFAULT '' @ template (map_of col ''dflt_value'') else []))
            columns)"

section \<open>The driver, the connection and the process state\<close>

text \<open>
  The embedded engine and its driver are outside the repository, so they are a parameter:
  what opening the database file does (directory creation, \<^verbatim>\<open>new Database\<close> and the
  four configuration pragmas of \<^verbatim>\<open>initializeDatabase\<close>, which either throw or succeed)
  and what \<^verbatim>\<open>prepare(sql).all\<close>, \<^verbatim>\<open>.get\<close> and \<^verbatim>\<open>.run\<close> do with bound
  values to the stored data \<open>'db\<close> (tables and rows, and whether a transaction is open).
  Each may throw and each may change the data. The engine's own transaction control, as
  the driver's transaction wrapper uses it, is a parameter too: whether a transaction is
  open, and what beginning, committing and rolling back do.
\<close>

record run_info =
  changes :: int
  lastInsertRowid :: int

record 'db driver =
  openDatabase :: "string \<Rightarrow> thrown option"
  prepare_all :: "string \<Rightarrow> json list \<Rightarrow> 'db \<Rightarrow> (thrown + row list) \<times> 'db"
  prepare_get :: "string \<Rightarrow> json list \<Rightarrow> 'db \<Rightarrow> (thrown + row option) \<times> 'db"
  prepare_run :: "string \<Rightarrow> json list \<Rightarrow> 'db \<Rightarrow> (thrown + run_info) \<times> 'db"
  inTransaction :: "'db \<Rightarrow> bool"
  begin_tx :: "'db \<Rightarrow> (thrown + unit) \<times> 'db"
  commit_tx :: "'db \<Rightarrow> (thrown + unit) \<times> 'db"
  rollback_tx :: "'db \<Rightarrow> (thrown + unit) \<times> 'db"

datatype call =
    PrepareAll string "json list"
  | PrepareGet string "json list"
  | PrepareRun string "json list"

text \<open>
  The state of the server: the environment variable as read at load time, the module
  variable \<^verbatim>\<open>db\<close> (null or an open handle), the stored data, and the statements handed
  to the driver so far, in order.
\<close>

record 'db world =
  env_SQLITE_DB_PATH :: "string option"
  db :: bool
  store :: 'db
  calls :: "call list"

definition DEFAULT_DB_PATH :: "string option \<Rightarrow> string" where
  "DEFAULT_DB_PATH env =
     (case env of None \<Rightarrow> ''./database.db''
      | Some p \<Rightarrow> if p \<noteq> [] then p else ''./database.db'')"

definition initializeDatabase :: "'db driver \<Rightarrow> string \<Rightarrow> thrown option" where
  "initializeDatabase drv dbPath = openDatabase drv dbPath"

definition getDatabase :: "'db driver \<Rightarrow> 'db world \<Rightarrow> (thrown + unit) \<times> 'db world" where
  "getDatabase drv w =
     (if db w then (Inr (), w)
      else case initializeDatabase drv (DEFAULT_DB_PATH (env_SQLITE_DB_PATH w)) of
             Some e \<Rightarrow> (Inl e, w)
           | None \<Rightarrow> (Inr (), w\<lparr>db := True\<rparr>))"

definition stmt_all ::
  "'db driver \<Rightarrow> string \<Rightarrow> json list \<Rightarrow> 'db world \<Rightarrow> (thrown + row list) \<times> 'db world" where
  "stmt_all drv sql ps w =
     (case prepare_all drv sql ps (store w) of
        (r, s) \<Rightarrow> (r, w\<lparr>store := s, calls := calls w @ [PrepareAll sql ps]\<rparr>))"

definition stmt_get ::
  "'db driver \<Rightarrow> string \<Rightarrow> json list \<Rightarrow> 'db world \<Rightarrow> (thrown + row option) \<times> 'db world" where
  "stmt_get drv sql ps w =
     (case prepare_get drv sql ps (store w) of
        (r, s) \<Rightarrow> (r, w\<lparr>store := s, calls := calls w @ [PrepareGet sql ps]\<rparr>))"

definition stmt_run ::
  "'db driver \<Rightarrow> string \<Rightarrow> json list \<Rightarrow> 'db world \<Rightarrow> (thrown + run_info) \<times> 'db world" where
  "stmt_run drv sql ps w =
     (case prepare_run drv sql ps (store w) of
        (r, s) \<Rightarrow> (r, w\<lparr>store := s, calls := calls w @ [PrepareRun sql ps]\<rparr>))"

text \<open>
  The driver's transaction wrapper \<^verbatim>\<open>database.transaction(fn)\<close> is not code of the
  repository; it is modelled as the driver documents it, over the engine's transaction
  control. It begins a transaction (outside its own \<^verbatim>\<open>try\<close>), runs \<open>fn\<close> and commits.
  When \<open>fn\<close> or the commit throws, it rolls back if a transaction is still open, and
  only then, and throws the same value again; a rollback that throws replaces it. The
  statements of the wrapper itself are the driver's and are not counted among the
  statements that the handlers hand to the driver.
\<close>

definition undo ::
  "'db driver \<Rightarrow> thrown \<Rightarrow> 'db world \<Rightarrow> (thrown + 'a) \<times> 'db world" where
  "undo drv e w =
     (if inTransaction drv (store w)
      then case rollback_tx drv (store w) of
             (Inl e', s) \<Rightarrow> (Inl e', w\<lparr>store := s\<rparr>)
           | (Inr _, s) \<Rightarrow> (Inl e, w\<lparr>store := s\<rparr>)
      else (Inl e, w))"

definition db_transaction ::
  "'db driver \<Rightarrow> ('db world \<Rightarrow> (thrown + 'a) \<times> 'db world) \<Rightarrow> 'db world
     \<Rightarrow> (thrown + 'a) \<times> 'db world" where
  "db_transaction drv fn w =
     (case begin_tx drv (store w) of
        (Inl e, s) \<Rightarrow> (Inl e, w\<lparr>store := s\<rparr>)
      | (Inr _, s) \<Rightarrow>
          (case fn (w\<lparr>store := s\<rparr>) of
             (Inl e, w1) \<Rightarrow> undo drv e w1
           | (Inr r, w1) \<Rightarrow>
               (case commit_tx drv (store w1) of
                  (Inl e, s2) \<Rightarrow> undo drv e (w1\<lparr>store := s2\<rparr>)
                | (Inr _, s2) \<Rightarrow> (Inr r, w1\<lparr>store := s2\<rparr>))))"

section \<open>The tool handlers\<close>

text \<open>
  A handler takes the driver, its validated input and the state, and gives back the new
  state with either the response it returned (\<open>Inr\<close>) or the value that escaped it
  (\<open>Inl\<close>). \<open>try_catch\<close> is the \<^verbatim>\<open>try { ... } catch (error) { return handleDatabaseError(error) }\<close>
  around a handler body. Writing to the console is left out. A success response has no
  \<^verbatim>\<open>isError\<close> field, which reads as false.
\<close>

definition try_catch :: "(thrown + response) \<times> 'w \<Rightarrow> (thrown + response) \<times> 'w" where
  "try_catch m =
     (case m of
        (Inl e, w) \<Rightarrow> (Inr (handleDatabaseError e), w)
      | (Inr r, w) \<Rightarrow> (Inr r, w))"

definition success :: "json \<Rightarrow> response" where
  "success v = \<lparr>content = [Stringify v], isError = False\<rparr>"

text \<open>A call is refused when an error escapes it or it answers with an error envelope.\<close>

fun is_refusal :: "thrown + response \<Rightarrow> bool" where
  "is_refusal (Inl e) = True"
| "is_refusal (Inr r) = isError r"

fun or_else :: "string option \<Rightarrow> string \<Rightarrow> string" where
  "or_else None d = d"
| "or_else (Some s) d = (if s \<noteq> [] then s else d)"

definition query_tool ::
  "'db driver \<Rightarrow> string \<Rightarrow> 'db world \<Rightarrow> (thrown + response) \<times> 'db world" where
  "query_tool drv sql w =
     try_catch
       (let validation = validateSqlQuery sql
        in if \<not> isValid validation
           then (Inr (handleDatabaseError (Error (or_else (error validation) ''Invalid SQL''))), w)
           else if \<not> isReadOnly validation
           then (Inr (handleDatabaseError (Error
                   ''Only read-only queries are allowed. Use 'execute' tool for write operations.'')), w)
           else case getDatabase drv w of
                  (Inl e, w1) \<Rightarrow> (Inl e, w1)
                | (Inr _, w1) \<Rightarrow>
                    (case stmt_all drv sql [] w1 of
                       (Inl e, w2) \<Rightarrow> (Inl e, w2)
                     | (Inr results, w2) \<Rightarrow> (Inr (success (JArr (map JObj results))), w2)))"

definition execute_tool ::
  "'db driver \<Rightarrow> string \<Rightarrow> 'db world \<Rightarrow> (thrown + response) \<times> 'db world" where
  "execute_tool drv sql w =
     try_catch
       (let validation = validateSqlQuery sql
        in if \<not> isValid validation
           then (Inr (handleDatabaseError (Error (or_else (error validation) ''Invalid SQL''))), w)
           else case getDatabase drv w of
                  (Inl e, w1) \<Rightarrow> (Inl e, w1)
                | (Inr _, w1) \<Rightarrow>
                    (case stmt_run drv sql [] w1 of
                       (Inl e, w2) \<Rightarrow> (Inl e, w2)
                     | (Inr result, w2) \<Rightarrow>
                         (Inr (success (JObj
                            [(''changes'', JNum (changes result)),
                             (''lastInsertRowid'', JNum (lastInsertRowid result)),
                             (''message'', JStr (''Statement executed successfully. ''
                                @ show_int (changes result) @ '' row(s) affected.''))])), w2)))"

definition tableExistsSql :: string where
  "tableExistsSql =
     [CHR 0x0A] @ ''          SELECT name FROM sqlite_master''
     @ [CHR 0x0A] @ ''          WHERE type='table' AND name=?''
     @ [CHR 0x0A] @ ''        ''"

definition describe_table_tool ::
  "'db driver \<Rightarrow> string \<Rightarrow> 'db world \<Rightarrow> (thrown + response) \<times> 'db world" where
  "describe_table_tool drv tableName w =
     try_catch
       (case getDatabase drv w of
          (Inl e, w1) \<Rightarrow> (Inl e, w1)
        | (Inr _, w1) \<Rightarrow>
        (case stmt_get drv tableExistsSql [JStr tableName] w1 of
          (Inl e, w2) \<Rightarrow> (Inl e, w2)
        | (Inr None, w2) \<Rightarrow>
            (Inr (handleDatabaseError (Error
               (''Table '' @ [CHR 0x27] @ tableName @ [CHR 0x27] @ '' does not exist''))), w2)
        | (Inr (Some tableExists), w2) \<Rightarrow>
        (case stmt_all drv (''PRAGMA table_info('' @ tableName @ '')'') [] w2 of
          (Inl e, w3) \<Rightarrow> (Inl e, w3)
        | (Inr columns, w3) \<Rightarrow>
        (case stmt_all drv (''PRAGMA index_list('' @ tableName @ '')'') [] w3 of
          (Inl e, w4) \<Rightarrow> (Inl e, w4)
        | (Inr indexes, w4) \<Rightarrow>
        (case stmt_all drv (''PRAGMA foreign_key_list('' @ tableName @ '')'') [] w4 of
          (Inl e, w5) \<Rightarrow> (Inl e, w5)
        | (Inr foreignKeys, w5) \<Rightarrow>
            (Inr (success (JObj
               [(''tableName'', JStr tableName),
                (''columns'', JArr (map JObj columns)),
                (''indexes'', JArr (map JObj indexes)),
                (''foreignKeys'', JArr (map JObj foreignKeys)),
                (''columnCount'', JNum (int (length columns))),
                (''formattedColumns'', JStr (formatTableInfo columns))])), w5))))))"

definition listTablesSql :: string where
  "listTablesSql =
     [CHR 0x0A] @ ''          SELECT name, sql FROM sqlite_master''
     @ [CHR 0x0A] @ ''          WHERE type='table' AND name NOT LIKE 'sqlite_%'' @ [CHR 0x27]
     @ [CHR 0x0A] @ ''          ORDER BY name''
     @ [CHR 0x0A] @ ''        ''"

definition list_tables_tool ::
  "'db driver \<Rightarrow> 'db world \<Rightarrow> (thrown + response) \<times> 'db world" where
  "list_tables_tool drv w =
     try_catch
       (case getDatabase drv w of
          (Inl e, w1) \<Rightarrow> (Inl e, w1)
        | (Inr _, w1) \<Rightarrow>
            (case stmt_all drv listTablesSql [] w1 of
               (Inl e, w2) \<Rightarrow> (Inl e, w2)
             | (Inr tables, w2) \<Rightarrow> (Inr (success (JArr (map JObj tables))), w2)))"

text \<open>
  The input of create-table. The optional fields may be absent; \<^verbatim>\<open>if (col.primaryKey)\<close>
  and \<^verbatim>\<open>if (col.defaultValue)\<close> test truthiness, so an absent field, \<^verbatim>\<open>false\<close> and
  the empty string add nothing. The schema gives \<^verbatim>\<open>ifNotExists\<close> and \<^verbatim>\<open>ifExists\<close>
  the default true before the handler runs.
\<close>

record column =
  name :: string
  type :: string
  primaryKey :: "bool option"
  notNull :: "bool option"
  unique :: "bool option"
  defaultValue :: "string option"

fun flag :: "bool option \<Rightarrow> bool" where
  "flag None = False"
| "flag (Some b) = b"

fun default_true :: "bool option \<Rightarrow> bool" where
  "default_true None = True"
| "default_true (Some b) = b"

definition columnDefinition :: "column \<Rightarrow> string" where
  "columnDefinition col =
     (let def = name col @ '' '' @ type col;
          def = (if flag (primaryKey col) then def @ '' PRIMARY KEY'' else def);
          def = (if flag (notNull col) then def @ '' NOT NULL'' else def);
          def = (if flag (unique col) then def @ '' UNIQUE'' else def);
          def = (case defaultValue col of
                   None \<Rightarrow> def
                 | Some v \<Rightarrow> if v \<noteq> [] then def @ '' DEFAULT '' @ v else def)
      in def)"

definition createStatement :: "string \<Rightarrow> column list \<Rightarrow> bool \<Rightarrow> string" where
  "createStatement table_name columns ifNotExists =
     ''CREATE TABLE '' @ (if ifNotExists then ''IF NOT EXISTS '' else [])
     @ table_name @ '' ('' @ join '', '' (map columnDefinition columns) @ '')''"

definition create_table_tool ::
  "'db driver \<Rightarrow> string \<Rightarrow> column list \<Rightarrow> bool option \<Rightarrow> 'db world
     \<Rightarrow> (thrown + response) \<times> 'db world" where
  "create_table_tool drv table_name columns ifNotExists_opt w =
     try_catch
       (let ifNotExists = default_true ifNotExists_opt;
            sql = createStatement table_name columns ifNotExists
        in case getDatabase drv w of
             (Inl e, w1) \<Rightarrow> (Inl e, w1)
           | (Inr _, w1) \<Rightarrow>
               (case stmt_run drv sql [] w1 of
                  (Inl e, w2) \<Rightarrow> (Inl e, w2)
                | (Inr result, w2) \<Rightarrow>
                    (Inr (success (JObj
                       [(''message'', JStr (''Table '' @ [CHR 0x27] @ table_name @ [CHR 0x27]
                           @ '' created successfully'')),
                        (''sql'', JStr sql),
                        (''changes'', JNum (changes result))])), w2)))"

definition dropStatement :: "string \<Rightarrow> bool \<Rightarrow> string" where
  "dropStatement table_name ifExists =
     ''DROP TABLE '' @ (if ifExists then ''IF EXISTS '' else []) @ table_name"

definition drop_table_tool ::
  "'db driver \<Rightarrow> string \<Rightarrow> bool option \<Rightarrow> 'db world \<Rightarrow> (thrown + response) \<times> 'db world" where
  "drop_table_tool drv table_name ifExists_opt w =
     try_catch
       (let ifExists = default_true ifExists_opt;
            sql = dropStatement table_name ifExists
        in case getDatabase drv w of
             (Inl e, w1) \<Rightarrow> (Inl e, w1)
           | (Inr _, w1) \<Rightarrow>
               (case stmt_run drv sql [] w1 of
                  (Inl e, w2) \<Rightarrow> (Inl e, w2)
                | (Inr result, w2) \<Rightarrow>
                    (Inr (success (JObj
                       [(''message'', JStr (''Table '' @ [CHR 0x27] @ table_name @ [CHR 0x27]
                           @ '' dropped successfully'')),
                        (''sql'', JStr sql),
                        (''changes'', JNum (changes result))])), w2)))"

text \<open>
  The \<^verbatim>\<open>data\<close> object of insert-record and update-record is given by its properties
  in the order in which they were added to it (the order of the members in the request),
  each key once. \<^verbatim>\<open>Object.keys\<close> and \<^verbatim>\<open>Object.values\<close> enumerate own properties
  the way the language orders them: first the keys that are array indices (the canonical
  decimal form of an integer from 0 to 4294967294), ascending by value, then the other
  keys in the order they were added.
\<close>

type_synonym jsobject = "(string \<times> json) list"

definition isDigit :: "char \<Rightarrow> bool" where
  "isDigit c \<longleftrightarrow> c \<in> set ''0123456789''"

definition indexValue :: "string \<Rightarrow> int" where
  "indexValue k = foldl (\<lambda>n c. 10 * n + (of_char c - 48)) 0 k"

definition isArrayIndex :: "string \<Rightarrow> bool" where
  "isArrayIndex k \<longleftrightarrow>
     k \<noteq> [] \<and> list_all isDigit k \<and> (k = ''0'' \<or> hd k \<noteq> CHR ''0'')
     \<and> indexValue k \<le> 4294967294"

definition ownProperties :: "jsobject \<Rightarrow> (string \<times> json) list" where
  "ownProperties obj =
     sort_key (\<lambda>p. indexValue (fst p)) (filter (\<lambda>p. isArrayIndex (fst p)) obj)
     @ filter (\<lambda>p. \<not> isArrayIndex (fst p)) obj"

definition Object_keys :: "jsobject \<Rightarrow> string list" where
  "Object_keys obj = map fst (ownProperties obj)"

definition Object_values :: "jsobject \<Rightarrow> json list" where
  "Object_values obj = map snd (ownProperties obj)"

definition insertStatement :: "string \<Rightarrow> jsobject \<Rightarrow> string" where
  "insertStatement table data =
     (let columns = Object_keys data;
          placeholders = join '', '' (map (\<lambda>_. ''?'') columns)
      in ''INSERT INTO '' @ table @ '' ('' @ join '', '' columns @ '') VALUES (''
         @ placeholders @ '')'')"

definition insert_record_tool ::
  "'db driver \<Rightarrow> string \<Rightarrow> jsobject \<Rightarrow> 'db world \<Rightarrow> (thrown + response) \<times> 'db world" where
  "insert_record_tool drv table data w =
     try_catch
       (let vals = Object_values data;
            sql = insertStatement table data
        in case getDatabase drv w of
             (Inl e, w1) \<Rightarrow> (Inl e, w1)
           | (Inr _, w1) \<Rightarrow>
               (case stmt_run drv sql vals w1 of
                  (Inl e, w2) \<Rightarrow> (Inl e, w2)
                | (Inr result, w2) \<Rightarrow>
                    (Inr (success (JObj
                       [(''message'', JStr ''Record inserted successfully''),
                        (''insertedId'', JNum (lastInsertRowid result)),
                        (''changes'', JNum (changes result)),
                        (''sql'', JStr sql)])), w2)))"

definition updateStatement :: "string \<Rightarrow> jsobject \<Rightarrow> string \<Rightarrow> string" where
  "updateStatement table data where_clause =
     (let setClause = join '', '' (map (\<lambda>key. key @ '' = ?'') (Object_keys data))
      in ''UPDATE '' @ table @ '' SET '' @ setClause @ '' WHERE '' @ where_clause)"

definition update_record_tool ::
  "'db driver \<Rightarrow> string \<Rightarrow> jsobject \<Rightarrow> string \<Rightarrow> 'db world
     \<Rightarrow> (thrown + response) \<times> 'db world" where
  "update_record_tool drv table data where_clause w =
     try_catch
       (let vals = Object_values data;
            sql = updateStatement table data where_clause
        in case getDatabase drv w of
             (Inl e, w1) \<Rightarrow> (Inl e, w1)
           | (Inr _, w1) \<Rightarrow>
               (case stmt_run drv sql vals w1 of
                  (Inl e, w2) \<Rightarrow> (Inl e, w2)
                | (Inr result, w2) \<Rightarrow>
                    (Inr (success (JObj
                       [(''message'', JStr ''Records updated successfully''),
                        (''changes'', JNum (changes result)),
                        (''sql'', JStr sql)])), w2)))"

definition deleteStatement :: "string \<Rightarrow> string \<Rightarrow> string" where
  "deleteStatement table where_clause = ''DELETE FROM '' @ table @ '' WHERE '' @ where_clause"

definition delete_record_tool ::
  "'db driver \<Rightarrow> string \<Rightarrow> string \<Rightarrow> 'db world \<Rightarrow> (thrown + response) \<times> 'db world" where
  "delete_record_tool drv table where_clause w =
     try_catch
       (let sql = deleteStatement table where_clause
        in case getDatabase drv w of
             (Inl e, w1) \<Rightarrow> (Inl e, w1)
           | (Inr _, w1) \<Rightarrow>
               (case stmt_run drv sql [] w1 of
                  (Inl e, w2) \<Rightarrow> (Inl e, w2)
                | (Inr result, w2) \<Rightarrow>
                    (Inr (success (JObj
                       [(''message'', JStr ''Records deleted successfully''),
                        (''changes'', JNum (changes result)),
                        (''sql'', JStr sql)])), w2)))"

text \<open>
  The function handed to the transaction wrapper: the loop over the statements, with the
  results collected so far. A rejected statement throws before the driver sees it.
\<close>

fun undefined_or :: "string option \<Rightarrow> string" where
  "undefined_or None = ''undefined''"
| "undefined_or (Some s) = s"

fun run_statements ::
  "'db driver \<Rightarrow> string list \<Rightarrow> json list \<Rightarrow> 'db world \<Rightarrow> (thrown + json list) \<times> 'db world" where
  "run_statements drv [] results w = (Inr results, w)"
| "run_statements drv (stmt # stmts) results w =
     (let validation = validateSqlQuery stmt
      in if \<not> isValid validation
         then (Inl (Error (''Invalid SQL: '' @ undefined_or (error validation))), w)
         else case stmt_run drv stmt [] w of
                (Inl e, w1) \<Rightarrow> (Inl e, w1)
              | (Inr result, w1) \<Rightarrow>
                  run_statements drv stmts
                    (results @ [JObj [(''sql'', JStr stmt),
                                      (''changes'', JNum (changes result)),
                                      (''lastInsertRowid'', JNum (lastInsertRowid result))]])
                    w1)"

definition transaction_tool ::
  "'db driver \<Rightarrow> string list \<Rightarrow> 'db world \<Rightarrow> (thrown + response) \<times> 'db world" where
  "transaction_tool drv statements w =
     (case getDatabase drv w of
        (Inl e, w1) \<Rightarrow> (Inl e, w1)
      | (Inr _, w1) \<Rightarrow>
          try_catch
            (case db_transaction drv (run_statements drv statements []) w1 of
               (Inl e, w2) \<Rightarrow> (Inl e, w2)
             | (Inr results, w2) \<Rightarrow>
                 (Inr (success (JObj
                    [(''message'', JStr ''Transaction completed successfully''),
                     (''results'', JArr results),
                     (''totalStatements'', JNum (int (length statements)))])), w2)))"

fun call_sql :: "call \<Rightarrow> string" where
  "call_sql (PrepareAll sql ps) = sql"
| "call_sql (PrepareGet sql ps) = sql"
| "call_sql (PrepareRun sql ps) = sql"

section \<open>The command-line wrapper\<close>

text \<open>
  The wrapper imports the server module statically, so the server module is evaluated
  first, and with it \<^verbatim>\<open>DEFAULT_DB_PATH\<close>: the state of the server holds the reading of
  the environment variable taken then. The wrapper's own state is the variable as it is
  now. \<^verbatim>\<open>process.exit(code)\<close> ends everything at once and is the value \<open>Inl code\<close>
  or \<open>Exit code\<close>; writing to the console is left out.
\<close>

record cli_config =
  showHelp :: bool
  showVersion :: bool
  dbPath :: string

fun startsWithDash :: "string \<Rightarrow> bool" where
  "startsWithDash [] = False"
| "startsWithDash (c # cs) = (c = CHR ''-'')"

fun parseArgs_loop :: "string list \<Rightarrow> cli_config \<Rightarrow> nat + cli_config" where
  "parseArgs_loop [] config = Inr config"
| "parseArgs_loop (arg # rest) config =
     (if arg = ''--help'' \<or> arg = ''-h'' then parseArgs_loop rest (config\<lparr>showHelp := True\<rparr>)
      else if arg = ''--version'' \<or> arg = ''-v''
      then parseArgs_loop rest (config\<lparr>showVersion := True\<rparr>)
      else if arg = ''--db'' \<or> arg = ''--database''
      then (case rest of
              [] \<Rightarrow> Inl 1
            | path # rest' \<Rightarrow> parseArgs_loop rest' (config\<lparr>dbPath := path\<rparr>))
      else if startsWithDash arg then Inl 1
      else parseArgs_loop rest (config\<lparr>dbPath := arg\<rparr>))"

definition parseArgs :: "string list \<Rightarrow> string option \<Rightarrow> nat + cli_config" where
  "parseArgs args env =
     parseArgs_loop args
       \<lparr>showHelp = False, showVersion = False, dbPath = DEFAULT_DB_PATH env\<rparr>"

record 'db node_process =
  process_env :: "string option"
  server :: "'db world"

definition import_index :: "string option \<Rightarrow> 'db \<Rightarrow> 'db node_process" where
  "import_index env s =
     \<lparr>process_env = env,
      server = \<lparr>env_SQLITE_DB_PATH = env, db = False, store = s, calls = []\<rparr>\<rparr>"

datatype cli_outcome = Exit nat | Running

text \<open>
  \<^verbatim>\<open>main\<close> registers the handlers and connects the transport; it opens no connection,
  which is acquired by the first handler that needs it.
\<close>

definition cli :: "string list \<Rightarrow> 'db node_process \<Rightarrow> cli_outcome \<times> 'db node_process" where
  "cli args p =
     (case parseArgs args (process_env p) of
        Inl code \<Rightarrow> (Exit code, p)
      | Inr config \<Rightarrow>
          if showHelp config then (Exit 0, p)
          else if showVersion config then (Exit 0, p)
          else (Running, p\<lparr>process_env := Some (dbPath config)\<rparr>))"

section \<open>The statements as the specification words them\<close>

definition allowedPragmas :: "string list" where
  "allowedPragmas = [''table_info'', ''schema_version'', ''user_version'']"

text \<open>
  The create-table statement in the spec's words: the name and the type, then in fixed
  order the clauses of the flags that are set, and the clauses of all columns joined by
  commas inside \<^verbatim>\<open>CREATE TABLE [IF NOT EXISTS] name (...)\<close>.
\<close>

definition spec_column_clause :: "column \<Rightarrow> string" where
  "spec_column_clause col =
     join '' ''
       ([name col, type col]
        @ (if primaryKey col = Some True then [''PRIMARY KEY''] else [])
        @ (if notNull col = Some True then [''NOT NULL''] else [])
        @ (if unique col = Some True then [''UNIQUE''] else [])
        @ (case defaultValue col of
             None \<Rightarrow> []
           | Some v \<Rightarrow> if v = [] then [] else [''DEFAULT '' @ v]))"

definition spec_create_table :: "string \<Rightarrow> column list \<Rightarrow> bool \<Rightarrow> string" where
  "spec_create_table table_name columns ifNotExists =
     (if ifNotExists then ''CREATE TABLE IF NOT EXISTS '' else ''CREATE TABLE '')
     @ table_name @ '' ('' @ join '', '' (map spec_column_clause columns) @ '')''"

section \<open>Small engines for running the handlers\<close>

text \<open>
  A stand-in engine on which the handlers are run at concrete inputs. Its stored data
  is the list of statements applied so far with their bound values, and the snapshots
  taken at each open begin. The file always opens; a read returns no rows; the table
  lookup finds only \<^verbatim>\<open>users\<close>. A statement is applied and reported as one changed row
  with the next row identifier, except that the insert into the missing table throws
  and that the text \<^verbatim>\<open>COMMIT\<close> ends the open transaction, keeping what was applied.
  Beginning takes a snapshot, committing drops the latest one, rolling back returns to
  it; without an open transaction the last two throw.
\<close>

type_synonym journal = "(string \<times> json list) list"

definition journal_driver :: "(journal \<times> journal list) driver" where
  "journal_driver =
     \<lparr>openDatabase = (\<lambda>path. None),
      prepare_all = (\<lambda>sql ps s. (Inr [], s)),
      prepare_get = (\<lambda>sql ps s.
        (if ps = [JStr ''users''] then Inr (Some [(''name'', JStr ''users'')]) else Inr None, s)),
      prepare_run = (\<lambda>sql ps s.
        if sql = ''INSERT INTO nonexistent_table(a) VALUES (1)''
        then (Inl (Error ''no such table: nonexistent_table''), s)
        else if sql = ''COMMIT''
        then (if snd s = [] then (Inl (Error ''cannot commit - no transaction is active''), s)
              else (Inr \<lparr>changes = 0, lastInsertRowid = int (length (fst s))\<rparr>, (fst s, [])))
        else (Inr \<lparr>changes = 1, lastInsertRowid = int (length (fst s)) + 1\<rparr>,
              (fst s @ [(sql, ps)], snd s))),
      inTransaction = (\<lambda>s. snd s \<noteq> []),
      begin_tx = (\<lambda>s. (Inr (), (fst s, fst s # snd s))),
      commit_tx = (\<lambda>s.
        case snd s of
          [] \<Rightarrow> (Inl (Error ''cannot commit - no transaction is active''), s)
        | snapshot # rest \<Rightarrow> (Inr (), (fst s, rest))),
      rollback_tx = (\<lambda>s.
        case snd s of
          [] \<Rightarrow> (Inl (Error ''cannot rollback - no transaction is active''), s)
        | snapshot # rest \<Rightarrow> (Inr (), (snapshot, rest)))\<rparr>"

text \<open>The same engine behind a database file that cannot be opened.\<close>

definition unopenable_driver :: "(journal \<times> journal list) driver" where
  "unopenable_driver =
     journal_driver\<lparr>openDatabase := (\<lambda>path. Some (Error ''unable to open database file''))\<rparr>"

definition fresh_process :: "(journal \<times> journal list) world" where
  "fresh_process = \<lparr>env_SQLITE_DB_PATH = None, db = False, store = ([], []), calls = []\<rparr>"



section \<open>Regular-expression matching, characterised\<close>

lemma in_class_Space: "in_class Space = isWhiteSpace"
  by (rule ext) simp

lemma matches_Lit: "matches (Lit l # as) s \<longleftrightarrow> (\<exists>r. s = l @ r \<and> matches as r)"
  by (auto simp: prefix_def)

lemma matches_One:
  "matches (One c # as) s \<longleftrightarrow> (\<exists>x r. s = x # r \<and> in_class c x \<and> matches as r)"
  by (cases s) auto

lemma matches_Star:
  "matches (Star c # as) s \<longleftrightarrow>
     (\<exists>p r. s = p @ r \<and> list_all (in_class c) p \<and> matches as r)"
proof (induction s)
  case Nil
  then show ?case by auto
next
  case (Cons x xs)
  show ?case
  proof
    assume "matches (Star c # as) (x # xs)"
    then consider "in_class c x" "matches (Star c # as) xs" | "matches as (x # xs)"
      by auto
    then show "\<exists>p r. x # xs = p @ r \<and> list_all (in_class c) p \<and> matches as r"
    proof cases
      case 1
      with Cons.IH obtain p r where "xs = p @ r" "list_all (in_class c) p" "matches as r"
        by auto
      then have "x # xs = (x # p) @ r \<and> list_all (in_class c) (x # p) \<and> matches as r"
        using 1 by simp
      then show ?thesis by blast
    next
      case 2
      then have "x # xs = [] @ (x # xs) \<and> list_all (in_class c) [] \<and> matches as (x # xs)"
        by simp
      then show ?thesis by blast
    qed
  next
    assume "\<exists>p r. x # xs = p @ r \<and> list_all (in_class c) p \<and> matches as r"
    then obtain p r where pr: "x # xs = p @ r" "list_all (in_class c) p" "matches as r"
      by auto
    show "matches (Star c # as) (x # xs)"
    proof (cases p)
      case Nil
      with pr have "r = x # xs" by simp
      with pr show ?thesis by simp
    next
      case (Cons y ys)
      with pr have "x = y" "xs = ys @ r" "in_class c x" "list_all (in_class c) ys" by auto
      with pr Cons.IH show ?thesis by auto
    qed
  qed
qed

lemma matches_Plus:
  "matches (Plus c # as) s \<longleftrightarrow>
     (\<exists>x p r. s = x # p @ r \<and> in_class c x \<and> list_all (in_class c) p \<and> matches as r)"
  by (cases s) (auto simp: matches_Star)

lemma search_iff: "search as s \<longleftrightarrow> (\<exists>p r. s = p @ r \<and> matches as r)"
proof (induction s)
  case Nil
  then show ?case by simp
next
  case (Cons x xs)
  show ?case
  proof
    assume "search as (x # xs)"
    then consider "matches as (x # xs)" | "search as xs" by auto
    then show "\<exists>p r. x # xs = p @ r \<and> matches as r"
    proof cases
      case 1
      then have "x # xs = [] @ (x # xs) \<and> matches as (x # xs)" by simp
      then show ?thesis by blast
    next
      case 2
      with Cons.IH obtain p r where "xs = p @ r" "matches as r" by auto
      then have "x # xs = (x # p) @ r \<and> matches as r" by simp
      then show ?thesis by blast
    qed
  next
    assume "\<exists>p r. x # xs = p @ r \<and> matches as r"
    then obtain p r where pr: "x # xs = p @ r" "matches as r" by auto
    show "search as (x # xs)"
    proof (cases p)
      case Nil
      with pr have "r = x # xs" by simp
      with pr show ?thesis by simp
    next
      case (Cons y ys)
      with pr have "xs = ys @ r" by simp
      with pr Cons.IH show ?thesis by auto
    qed
  qed
qed

text \<open>No allow-listed name begins with white space.\<close>

lemma allowed_not_after_space:
  assumes "isWhiteSpace y" and "l \<in> set allowedPragmas"
  shows "\<not> prefix l (y # s)"
  using assms by (auto simp: allowedPragmas_def isWhiteSpace_def)

lemma pragma_pattern_iff:
  "search [Lit ''pragma'', Plus Space,
           NotAhead [''table_info'', ''schema_version'', ''user_version'']] n \<longleftrightarrow>
     (\<exists>pre w rest. n = pre @ ''pragma'' @ w # rest \<and> isWhiteSpace w
        \<and> list_all (\<lambda>l. \<not> prefix l rest) allowedPragmas)"
  (is "?L \<longleftrightarrow> ?R")
proof
  assume ?L
  then obtain pre x p r where n: "n = pre @ ''pragma'' @ x # p @ r" and x: "isWhiteSpace x"
    and p: "list_all isWhiteSpace p" and r: "list_all (\<lambda>l. \<not> prefix l r) allowedPragmas"
    unfolding search_iff matches_Lit matches_Plus in_class_Space
    by (auto simp: allowedPragmas_def)
  have "list_all (\<lambda>l. \<not> prefix l (p @ r)) allowedPragmas"
  proof (cases p)
    case Nil
    with r show ?thesis by simp
  next
    case (Cons y ys)
    with p have "isWhiteSpace y" by simp
    then show ?thesis
      using allowed_not_after_space[of y] Cons by (simp add: list_all_iff)
  qed
  with n x show ?R by blast
next
  assume ?R
  then obtain pre w rest where n: "n = pre @ ''pragma'' @ w # rest" and w: "isWhiteSpace w"
    and r: "list_all (\<lambda>l. \<not> prefix l rest) allowedPragmas"
    by blast
  have "matches [Lit ''pragma'', Plus Space,
           NotAhead [''table_info'', ''schema_version'', ''user_version'']] (''pragma'' @ w # rest)"
    using w r by (cases rest) (simp_all add: allowedPragmas_def)
  with n show ?L unfolding search_iff by blast
qed

lemma attach_pattern_iff:
  "search [Lit kw, Plus Space, Lit ''database''] n \<longleftrightarrow>
     (\<exists>pre w ws rest. n = pre @ kw @ w # ws @ ''database'' @ rest \<and> isWhiteSpace w
        \<and> list_all isWhiteSpace ws)"
  (is "?L \<longleftrightarrow> ?R")
proof
  assume ?L
  then obtain pre x p r where "n = pre @ kw @ x # p @ ''database'' @ r" "isWhiteSpace x"
    "list_all isWhiteSpace p"
    unfolding search_iff matches_Lit matches_Plus in_class_Space by auto
  then show ?R by blast
next
  assume ?R
  then obtain pre w ws rest where n: "n = pre @ kw @ w # ws @ ''database'' @ rest"
    and w: "isWhiteSpace w" and ws: "list_all isWhiteSpace ws"
    by blast
  have "matches [Lit ''database''] (''database'' @ rest)"
    unfolding matches_Lit by simp
  with w ws have "matches [Plus Space, Lit ''database''] (w # ws @ ''database'' @ rest)"
    unfolding matches_Plus in_class_Space by blast
  then have "matches [Lit kw, Plus Space, Lit ''database''] (kw @ w # ws @ ''database'' @ rest)"
    unfolding matches_Lit by blast
  with n show ?L unfolding search_iff by blast
qed


section \<open>The verdicts of the validator\<close>

lemma dangerous_iff:
  "list_ex (\<lambda>p. test p n) dangerousPatterns \<longleftrightarrow>
     (\<exists>pre w rest. n = pre @ ''pragma'' @ w # rest \<and> isWhiteSpace w
        \<and> list_all (\<lambda>l. \<not> prefix l rest) allowedPragmas)
   \<or> (\<exists>pre w ws rest. n = pre @ ''attach'' @ w # ws @ ''database'' @ rest \<and> isWhiteSpace w
        \<and> list_all isWhiteSpace ws)
   \<or> (\<exists>pre w ws rest. n = pre @ ''detach'' @ w # ws @ ''database'' @ rest \<and> isWhiteSpace w
        \<and> list_all isWhiteSpace ws)"
  unfolding dangerousPatterns_def list_ex_Cons_iff list_ex_Nil_iff test.simps
    pragma_pattern_iff attach_pattern_iff
  by simp

lemma validate_dangerous:
  assumes "list_ex (\<lambda>p. test p (toLowerCase (trim sql))) dangerousPatterns"
  shows "validateSqlQuery sql =
    \<lparr>isValid = False, isReadOnly = False, error = Some ''Dangerous SQL operation detected''\<rparr>"
  using assms by (simp add: validateSqlQuery_def Let_def)

lemma validate_safe:
  assumes "\<not> list_ex (\<lambda>p. test p (toLowerCase (trim sql))) dangerousPatterns"
  shows "validateSqlQuery sql =
    \<lparr>isValid = True,
     isReadOnly = list_ex (\<lambda>p. test p (toLowerCase (trim sql))) readOnlyPatterns,
     error = None\<rparr>"
  using assms by (simp add: validateSqlQuery_def Let_def)

lemma isValid_iff:
  "isValid (validateSqlQuery sql) \<longleftrightarrow>
     \<not> list_ex (\<lambda>p. test p (toLowerCase (trim sql))) dangerousPatterns"
  by (simp add: validateSqlQuery_def Let_def)

lemma invalid_result:
  assumes "\<not> isValid (validateSqlQuery sql)"
  shows "validateSqlQuery sql =
    \<lparr>isValid = False, isReadOnly = False, error = Some ''Dangerous SQL operation detected''\<rparr>"
  using assms validate_dangerous isValid_iff by blast

text \<open>The shape that the hypotheses of the rejection theorems describe is dangerous.\<close>

lemma shape_dangerous:
  assumes n: "n = pre @ kw @ ws @ rest" and ws: "ws \<noteq> []" "list_all isWhiteSpace ws"
    and kw: "kw = ''pragma'' \<and> list_all (\<lambda>l. \<not> prefix l rest) allowedPragmas
           \<or> kw \<in> {''attach'', ''detach''} \<and> prefix ''database'' rest"
  shows "list_ex (\<lambda>p. test p n) dangerousPatterns"
proof -
  from ws obtain y ys where ys: "ws = y # ys" "isWhiteSpace y" "list_all isWhiteSpace ys"
    by (cases ws) auto
  from kw show ?thesis
  proof
    assume a: "kw = ''pragma'' \<and> list_all (\<lambda>l. \<not> prefix l rest) allowedPragmas"
    have "list_all (\<lambda>l. \<not> prefix l (ys @ rest)) allowedPragmas"
    proof (cases ys)
      case Nil
      with a show ?thesis by simp
    next
      case (Cons z zs)
      with ys have "isWhiteSpace z" by simp
      then show ?thesis
        using allowed_not_after_space[of z] Cons by (simp add: list_all_iff)
    qed
    moreover from n a ys have "n = pre @ ''pragma'' @ y # (ys @ rest)" by simp
    ultimately show ?thesis
      unfolding dangerous_iff using ys(2) by blast
  next
    assume a: "kw \<in> {''attach'', ''detach''} \<and> prefix ''database'' rest"
    then obtain r where r: "rest = ''database'' @ r" by (auto simp: prefix_def)
    with n ys have "n = pre @ kw @ y # ys @ ''database'' @ r" by simp
    with a ys show ?thesis
      unfolding dangerous_iff by blast
  qed
qed

lemma read_only_generic:
  "list_ex (\<lambda>p. test p n)
     [AtStart [Lit s, One Space],
      AtStart [Lit wi, One Space, Star Dot, Lit s, One Space],
      AtStart [Lit p, Plus Space, Lit x],
      AtStart [Lit p, Plus Space, Lit y],
      AtStart [Lit p, Plus Space, Lit z]] \<longleftrightarrow>
     (\<exists>w rest. n = s @ w # rest \<and> isWhiteSpace w)
   \<or> (\<exists>w mid w' rest. n = wi @ w # mid @ s @ w' # rest \<and> isWhiteSpace w
        \<and> list_all (\<lambda>c. \<not> isLineTerminator c) mid \<and> isWhiteSpace w')
   \<or> (\<exists>w ws name rest. n = p @ w # ws @ name @ rest \<and> isWhiteSpace w
        \<and> list_all isWhiteSpace ws \<and> name \<in> set [x, y, z])"
  (is "?L \<longleftrightarrow> ?S \<or> ?W \<or> ?P")
proof -
  have dot: "in_class Dot = (\<lambda>c. \<not> isLineTerminator c)"
    by (rule ext) simp
  have s: "test (AtStart [Lit s, One Space]) n \<longleftrightarrow> ?S"
    unfolding test.simps matches_Lit matches_One in_class_Space by auto
  have w: "test (AtStart [Lit wi, One Space, Star Dot, Lit s, One Space]) n \<longleftrightarrow> ?W"
  proof
    assume "test (AtStart [Lit wi, One Space, Star Dot, Lit s, One Space]) n"
    then obtain r1 where 1: "n = wi @ r1" "matches [One Space, Star Dot, Lit s, One Space] r1"
      unfolding test.simps matches_Lit by blast
    from 1(2) obtain a r2 where 2: "r1 = a # r2" "isWhiteSpace a"
      "matches [Star Dot, Lit s, One Space] r2"
      unfolding matches_One in_class_Space by blast
    from 2(3) obtain mid r3 where 3: "r2 = mid @ r3"
      "list_all (\<lambda>c. \<not> isLineTerminator c) mid" "matches [Lit s, One Space] r3"
      unfolding matches_Star dot by blast
    from 3(3) obtain r4 where 4: "r3 = s @ r4" "matches [One Space] r4"
      unfolding matches_Lit by blast
    from 4(2) obtain b r5 where 5: "r4 = b # r5" "isWhiteSpace b"
      unfolding matches_One in_class_Space by blast
    from 1 2 3 4 5 have "n = wi @ a # mid @ s @ b # r5" by simp
    with 2(2) 3(2) 5(2) show ?W by blast
  next
    assume ?W
    then obtain a mid b rest where h: "n = wi @ a # mid @ s @ b # rest" "isWhiteSpace a"
      "list_all (\<lambda>c. \<not> isLineTerminator c) mid" "isWhiteSpace b"
      by blast
    have "matches [One Space] (b # rest)"
      using h(4) by simp
    then have "matches [Lit s, One Space] (s @ b # rest)"
      unfolding matches_Lit by blast
    with h(3) have "matches [Star Dot, Lit s, One Space] (mid @ s @ b # rest)"
      unfolding matches_Star dot by blast
    with h(2) have "matches [One Space, Star Dot, Lit s, One Space] (a # mid @ s @ b # rest)"
      by simp
    then have "matches [Lit wi, One Space, Star Dot, Lit s, One Space]
                 (wi @ a # mid @ s @ b # rest)"
      unfolding matches_Lit by blast
    with h(1) show "test (AtStart [Lit wi, One Space, Star Dot, Lit s, One Space]) n"
      by simp
  qed
  have p: "test (AtStart [Lit p, Plus Space, Lit name]) n \<longleftrightarrow>
      (\<exists>w ws rest. n = p @ w # ws @ name @ rest \<and> isWhiteSpace w
         \<and> list_all isWhiteSpace ws)" for name
    unfolding test.simps matches_Lit matches_Plus in_class_Space
    by (simp only: matches.simps(1) simp_thms) blast
  have "?P \<longleftrightarrow>
       (\<exists>w ws rest. n = p @ w # ws @ x @ rest \<and> isWhiteSpace w \<and> list_all isWhiteSpace ws)
     \<or> (\<exists>w ws rest. n = p @ w # ws @ y @ rest \<and> isWhiteSpace w \<and> list_all isWhiteSpace ws)
     \<or> (\<exists>w ws rest. n = p @ w # ws @ z @ rest \<and> isWhiteSpace w \<and> list_all isWhiteSpace ws)"
    by (simp only: list.set insert_iff empty_iff simp_thms) blast
  then show ?thesis
    unfolding list_ex_Cons_iff list_ex_Nil_iff s w p by (simp only: simp_thms)
qed

lemma read_only_iff:
  "list_ex (\<lambda>p. test p n) readOnlyPatterns \<longleftrightarrow>
     (\<exists>w rest. n = ''select'' @ w # rest \<and> isWhiteSpace w)
   \<or> (\<exists>w mid w' rest. n = ''with'' @ w # mid @ ''select'' @ w' # rest \<and> isWhiteSpace w
        \<and> list_all (\<lambda>c. \<not> isLineTerminator c) mid \<and> isWhiteSpace w')
   \<or> (\<exists>w ws name rest. n = ''pragma'' @ w # ws @ name @ rest \<and> isWhiteSpace w
        \<and> list_all isWhiteSpace ws \<and> name \<in> set allowedPragmas)"
  unfolding readOnlyPatterns_def allowedPragmas_def by (rule read_only_generic)

section \<open>What the handlers do to the state\<close>

lemma getDatabase_frame:
  "store (snd (getDatabase drv w)) = store w"
  "calls (snd (getDatabase drv w)) = calls w"
  "env_SQLITE_DB_PATH (snd (getDatabase drv w)) = env_SQLITE_DB_PATH w"
  by (simp_all add: getDatabase_def split: option.splits)

lemma getDatabase_Inl:
  assumes "getDatabase drv w = (Inl e, w1)"
  shows "w1 = w"
  using assms by (auto simp: getDatabase_def split: if_splits option.splits)

lemma getDatabase_Inr:
  assumes "getDatabase drv w = (Inr u, w1)"
  shows "store w1 = store w \<and> calls w1 = calls w"
  using assms getDatabase_frame[of drv w] by simp

lemma rejected_by_query:
  assumes "\<not> isValid (validateSqlQuery sql)"
  shows "query_tool drv sql w =
    (Inr (handleDatabaseError (Error ''Dangerous SQL operation detected'')), w)"
  using assms invalid_result[OF assms]
  by (simp add: query_tool_def try_catch_def)

lemma rejected_by_execute:
  assumes "\<not> isValid (validateSqlQuery sql)"
  shows "execute_tool drv sql w =
    (Inr (handleDatabaseError (Error ''Dangerous SQL operation detected'')), w)"
  using assms invalid_result[OF assms]
  by (simp add: execute_tool_def try_catch_def)

lemma stmt_run_frame:
  "calls (snd (stmt_run drv sql ps w)) = calls w @ [PrepareRun sql ps]"
  "db (snd (stmt_run drv sql ps w)) = db w"
  by (simp_all add: stmt_run_def split: prod.splits)

text \<open>The loop hands the driver a prefix of the batch, and only accepted statements.\<close>

lemma run_statements_calls:
  "\<exists>k. calls (snd (run_statements drv stmts rs w))
         = calls w @ map (\<lambda>s. PrepareRun s []) (take k stmts)
       \<and> list_all (\<lambda>s. isValid (validateSqlQuery s)) (take k stmts)"
proof (induction stmts arbitrary: rs w)
  case Nil
  then show ?case by simp
next
  case (Cons stmt stmts)
  show ?case
  proof (cases "isValid (validateSqlQuery stmt)")
    case False
    then have "calls (snd (run_statements drv (stmt # stmts) rs w))
         = calls w @ map (\<lambda>s. PrepareRun s []) (take 0 (stmt # stmts))
       \<and> list_all (\<lambda>s. isValid (validateSqlQuery s)) (take 0 (stmt # stmts))"
      by simp
    then show ?thesis by blast
  next
    case True
    obtain r w1 where run: "stmt_run drv stmt [] w = (r, w1)"
      by (cases "stmt_run drv stmt [] w")
    then have c1: "calls w1 = calls w @ [PrepareRun stmt []]"
      using stmt_run_frame(1)[of drv stmt "[]" w] by simp
    show ?thesis
    proof (cases r)
      case (Inl e)
      with True run c1 have "calls (snd (run_statements drv (stmt # stmts) rs w))
         = calls w @ map (\<lambda>s. PrepareRun s []) (take 1 (stmt # stmts))
       \<and> list_all (\<lambda>s. isValid (validateSqlQuery s)) (take 1 (stmt # stmts))"
        by simp
      then show ?thesis by blast
    next
      case (Inr result)
      let ?rs = "rs @ [JObj [(''sql'', JStr stmt), (''changes'', JNum (changes result)),
                             (''lastInsertRowid'', JNum (lastInsertRowid result))]]"
      from Cons.IH[of ?rs w1] obtain k where
        k: "calls (snd (run_statements drv stmts ?rs w1))
              = calls w1 @ map (\<lambda>s. PrepareRun s []) (take k stmts)"
           "list_all (\<lambda>s. isValid (validateSqlQuery s)) (take k stmts)"
        by blast
      from True run Inr have
        "run_statements drv (stmt # stmts) rs w = run_statements drv stmts ?rs w1"
        by simp
      with k c1 True have "calls (snd (run_statements drv (stmt # stmts) rs w))
         = calls w @ map (\<lambda>s. PrepareRun s []) (take (Suc k) (stmt # stmts))
       \<and> list_all (\<lambda>s. isValid (validateSqlQuery s)) (take (Suc k) (stmt # stmts))"
        by simp
      then show ?thesis by blast
    qed
  qed
qed

lemma try_catch_world: "snd (try_catch m) = snd m"
  by (cases m; cases "fst m") (auto simp: try_catch_def)

lemma undo_frame:
  "calls (snd (undo drv e w)) = calls w"
  "\<exists>e'. fst (undo drv e w) = Inl e'"
  by (cases "rollback_tx drv (store w)"; cases "fst (rollback_tx drv (store w))";
      simp add: undo_def)+

lemma db_transaction_calls:
  "calls (snd (db_transaction drv fn w)) =
     (case begin_tx drv (store w) of
        (Inl e, s) \<Rightarrow> calls w
      | (Inr u, s) \<Rightarrow> calls (snd (fn (w\<lparr>store := s\<rparr>))))"
proof -
  obtain b s where b: "begin_tx drv (store w) = (b, s)"
    by (cases "begin_tx drv (store w)")
  show ?thesis
  proof (cases b)
    case (Inl e)
    with b show ?thesis by (simp add: db_transaction_def)
  next
    case (Inr u)
    obtain r w1 where f: "fn (w\<lparr>store := s\<rparr>) = (r, w1)"
      by (cases "fn (w\<lparr>store := s\<rparr>)")
    show ?thesis
    proof (cases r)
      case (Inl e)
      with b Inr f show ?thesis
        by (simp add: db_transaction_def undo_frame(1))
    next
      case r: (Inr x)
      obtain c s2 where c: "commit_tx drv (store w1) = (c, s2)"
        by (cases "commit_tx drv (store w1)")
      with b Inr f r show ?thesis
        by (cases c) (simp_all add: db_transaction_def undo_frame(1))
    qed
  qed
qed

lemma transaction_tool_calls:
  "\<exists>k. calls (snd (transaction_tool drv stmts w))
         = calls w @ map (\<lambda>s. PrepareRun s []) (take k stmts)
       \<and> list_all (\<lambda>s. isValid (validateSqlQuery s)) (take k stmts)"
proof -
  obtain g w1 where g: "getDatabase drv w = (g, w1)"
    by (cases "getDatabase drv w")
  show ?thesis
  proof (cases g)
    case (Inl e)
    with g have "w1 = w" using getDatabase_Inl by blast
    with g Inl have "calls (snd (transaction_tool drv stmts w))
         = calls w @ map (\<lambda>s. PrepareRun s []) (take 0 stmts)
       \<and> list_all (\<lambda>s. isValid (validateSqlQuery s)) (take 0 stmts)"
      by (simp add: transaction_tool_def)
    then show ?thesis by blast
  next
    case (Inr u)
    with g have c: "calls w1 = calls w" using getDatabase_Inr by blast
    let ?m = "db_transaction drv (run_statements drv stmts []) w1"
    have t: "snd (transaction_tool drv stmts w) = snd ?m"
      using g Inr
      by (cases ?m; cases "fst ?m") (auto simp: transaction_tool_def try_catch_def)
    obtain b s where b: "begin_tx drv (store w1) = (b, s)"
      by (cases "begin_tx drv (store w1)")
    show ?thesis
    proof (cases b)
      case (Inl e)
      with b t c have "calls (snd (transaction_tool drv stmts w))
         = calls w @ map (\<lambda>s. PrepareRun s []) (take 0 stmts)
       \<and> list_all (\<lambda>s. isValid (validateSqlQuery s)) (take 0 stmts)"
        by (simp add: db_transaction_calls)
      then show ?thesis by blast
    next
      case b': (Inr x)
      with b t have "calls (snd (transaction_tool drv stmts w))
          = calls (snd (run_statements drv stmts [] (w1\<lparr>store := s\<rparr>)))"
        by (simp add: db_transaction_calls)
      with run_statements_calls[of drv stmts "[]" "w1\<lparr>store := s\<rparr>"] c
      show ?thesis by simp
    qed
  qed
qed

text \<open>A batch that holds a rejected statement throws.\<close>

lemma run_statements_rejected:
  assumes "\<not> isValid (validateSqlQuery s)"
  shows "\<exists>e. fst (run_statements drv (before @ s # after) rs w) = Inl e"
proof (induction before arbitrary: rs w)
  case Nil
  with assms show ?case by simp
next
  case (Cons stmt before)
  obtain r w1 where run: "stmt_run drv stmt [] w = (r, w1)"
    by (cases "stmt_run drv stmt [] w")
  with Cons.IH show ?case
    by (cases r) (simp_all add: Let_def)
qed

text \<open>When the function throws, so does the wrapper, whatever the engine does.\<close>

lemma db_transaction_throws:
  assumes "\<And>w'. \<exists>e. fst (fn w') = Inl e"
  shows "\<exists>e. fst (db_transaction drv fn w) = Inl e"
proof -
  obtain b s where b: "begin_tx drv (store w) = (b, s)"
    by (cases "begin_tx drv (store w)")
  show ?thesis
  proof (cases b)
    case (Inl e)
    with b show ?thesis by (simp add: db_transaction_def)
  next
    case (Inr u)
    from assms obtain e w1 where "fn (w\<lparr>store := s\<rparr>) = (Inl e, w1)"
      by (metis prod.collapse)
    with b Inr show ?thesis
      by (simp add: db_transaction_def undo_frame(2))
  qed
qed

lemma transaction_tool_rejected:
  assumes "\<not> isValid (validateSqlQuery s)"
  shows "is_refusal (fst (transaction_tool drv (before @ s # after) w))"
proof -
  obtain g w1 where g: "getDatabase drv w = (g, w1)"
    by (cases "getDatabase drv w")
  show ?thesis
  proof (cases g)
    case (Inl e)
    with g show ?thesis by (simp add: transaction_tool_def)
  next
    case (Inr u)
    obtain e w2 where
      "db_transaction drv (run_statements drv (before @ s # after) []) w1 = (Inl e, w2)"
      using db_transaction_throws[of "run_statements drv (before @ s # after) []" drv w1]
        run_statements_rejected[OF assms, of drv before after "[]"]
      by (metis prod.collapse)
    with g Inr show ?thesis
      by (simp add: transaction_tool_def try_catch_def handleDatabaseError_def)
  qed
qed

section \<open>Claim C1: which texts are read-only\<close>

text \<open>
  Claim C1, as amended. The validator classifies a text as read-only exactly when it does
  not reject it and the normalized (trimmed, lowercased) text begins with \<^verbatim>\<open>select\<close>
  and a white-space character, or with \<^verbatim>\<open>with\<close>, a white-space character, any
  characters other than line terminators, \<^verbatim>\<open>select\<close> and a white-space character, or
  with \<^verbatim>\<open>pragma\<close>, white space and one of the three allow-listed names.
  Every other text that is not rejected is classified as mutating
  (\<open>isValid\<close> and not \<open>isReadOnly\<close>).
\<close>

theorem validator_read_only_iff:
  assumes n: "n = toLowerCase (trim sql)"
  shows "isReadOnly (validateSqlQuery sql) \<longleftrightarrow>
     isValid (validateSqlQuery sql) \<and>
     ((\<exists>w rest. n = ''select'' @ w # rest \<and> isWhiteSpace w)
      \<or> (\<exists>w mid w' rest. n = ''with'' @ w # mid @ ''select'' @ w' # rest \<and> isWhiteSpace w
           \<and> list_all (\<lambda>c. \<not> isLineTerminator c) mid \<and> isWhiteSpace w')
      \<or> (\<exists>w ws name rest. n = ''pragma'' @ w # ws @ name @ rest \<and> isWhiteSpace w
           \<and> list_all isWhiteSpace ws \<and> name \<in> set allowedPragmas))"
proof (cases "list_ex (\<lambda>p. test p n) dangerousPatterns")
  case True
  then show ?thesis
    using validate_dangerous[of sql] n by simp
next
  case False
  then have "isValid (validateSqlQuery sql)"
    and "isReadOnly (validateSqlQuery sql) = list_ex (\<lambda>p. test p n) readOnlyPatterns"
    using validate_safe[of sql] n by simp_all
  then show ?thesis
    by (simp only: read_only_iff simp_thms)
qed

text \<open>The theorem at a common-table-expression query with leading blanks.\<close>

theorem validator_read_only_iff_witness:
  "isValid (validateSqlQuery ''  WITH c AS (SELECT 1 AS one) SELECT one FROM c'')
   \<and> isReadOnly (validateSqlQuery ''  WITH c AS (SELECT 1 AS one) SELECT one FROM c'')"
proof -
  let ?q = "''  WITH c AS (SELECT 1 AS one) SELECT one FROM c''"
  let ?n = "''with c as (select 1 as one) select one from c''"
  have n: "?n = toLowerCase (trim ?q)"
    by code_simp
  have v: "isValid (validateSqlQuery ?q)"
    by code_simp
  have "?n = ''with'' @ CHR '' '' # ''c as ('' @ ''select'' @ CHR '' '' # ''1 as one) select one from c''
     \<and> isWhiteSpace (CHR '' '') \<and> list_all (\<lambda>c. \<not> isLineTerminator c) ''c as (''
     \<and> isWhiteSpace (CHR '' '')"
    by (simp add: isWhiteSpace_def isLineTerminator_def)
  then have w: "\<exists>w mid w' rest. ?n = ''with'' @ w # mid @ ''select'' @ w' # rest \<and> isWhiteSpace w
           \<and> list_all (\<lambda>c. \<not> isLineTerminator c) mid \<and> isWhiteSpace w'"
    by blast
  have "isReadOnly (validateSqlQuery ?q)"
    using validator_read_only_iff[OF n] v w by blast
  with v show ?thesis by simp
qed

text \<open>
  The claim as first stated fails: \<^verbatim>\<open>SELECT*FROM t\<close> starts with \<^verbatim>\<open>select\<close> and is
  accepted, yet it is classified as mutating, because no white space follows the
  keyword; and \<^verbatim>\<open>SELECT pragma FROM settings\<close> starts with \<^verbatim>\<open>select\<close> and is
  rejected, because the disallowed patterns are checked first and anywhere in the text.
\<close>

theorem select_prefix_counterexample:
  "prefix ''select'' (toLowerCase (trim ''SELECT*FROM t''))
   \<and> isValid (validateSqlQuery ''SELECT*FROM t'')
   \<and> \<not> isReadOnly (validateSqlQuery ''SELECT*FROM t'')
   \<and> prefix ''select'' (toLowerCase (trim ''SELECT pragma FROM settings''))
   \<and> \<not> isValid (validateSqlQuery ''SELECT pragma FROM settings'')
   \<and> \<not> isReadOnly (validateSqlQuery ''SELECT pragma FROM settings'')"
  by code_simp


section \<open>Claim C2: rejected text and the driver\<close>

text \<open>
  Claim C2, as amended. Let the normalized text hold, anywhere, \<^verbatim>\<open>pragma\<close>, white space
  and then something that does not begin with an allow-listed name, or \<^verbatim>\<open>attach\<close> or
  \<^verbatim>\<open>detach\<close>, white space and \<^verbatim>\<open>database\<close>. Then the validator rejects the text
  with the reason \<^verbatim>\<open>Dangerous SQL operation detected\<close>, and the tools that take SQL
  text from the caller never hand it to the driver: the query and execute tools make
  no driver call at all, and no statement that the transaction tool prepares, for any
  batch, is this text.
\<close>

theorem rejected_text_is_not_prepared:
  assumes "toLowerCase (trim sql) = pre @ kw @ ws @ rest"
    and "ws \<noteq> []" and "list_all isWhiteSpace ws"
    and "kw = ''pragma'' \<and> list_all (\<lambda>l. \<not> prefix l rest) allowedPragmas
         \<or> kw \<in> {''attach'', ''detach''} \<and> prefix ''database'' rest"
  shows "validateSqlQuery sql =
           \<lparr>isValid = False, isReadOnly = False,
            error = Some ''Dangerous SQL operation detected''\<rparr>
       \<and> calls (snd (query_tool drv sql w)) = calls w
       \<and> calls (snd (execute_tool drv sql w)) = calls w
       \<and> list_all (\<lambda>c. call_sql c \<noteq> sql)
            (drop (length (calls w)) (calls (snd (transaction_tool drv stmts w))))"
proof -
  have d: "list_ex (\<lambda>p. test p (toLowerCase (trim sql))) dangerousPatterns"
    using assms by (rule shape_dangerous)
  then have inv: "\<not> isValid (validateSqlQuery sql)"
    by (simp add: isValid_iff)
  obtain k where k: "calls (snd (transaction_tool drv stmts w))
         = calls w @ map (\<lambda>s. PrepareRun s []) (take k stmts)"
       "list_all (\<lambda>s. isValid (validateSqlQuery s)) (take k stmts)"
    using transaction_tool_calls by blast
  from k(2) inv have "list_all (\<lambda>s. s \<noteq> sql) (take k stmts)"
    by (auto simp: list_all_iff)
  then have "list_all (\<lambda>c. call_sql c \<noteq> sql) (map (\<lambda>s. PrepareRun s []) (take k stmts))"
    by (simp add: list_all_iff)
  with k(1) have "list_all (\<lambda>c. call_sql c \<noteq> sql)
            (drop (length (calls w)) (calls (snd (transaction_tool drv stmts w))))"
    by simp
  with validate_dangerous[OF d] rejected_by_query[OF inv, of drv w]
    rejected_by_execute[OF inv, of drv w]
  show ?thesis by simp
qed

text \<open>The theorem at an upper-case \<^verbatim>\<open>ATTACH DATABASE\<close>, alone and as second of a batch.\<close>

theorem rejected_text_is_not_prepared_witness:
  "validateSqlQuery ''ATTACH DATABASE 'other.db' AS other'' =
           \<lparr>isValid = False, isReadOnly = False,
            error = Some ''Dangerous SQL operation detected''\<rparr>
   \<and> calls (snd (query_tool journal_driver ''ATTACH DATABASE 'other.db' AS other''
                     fresh_process)) = calls fresh_process
   \<and> calls (snd (execute_tool journal_driver ''ATTACH DATABASE 'other.db' AS other''
                     fresh_process)) = calls fresh_process
   \<and> list_all (\<lambda>c. call_sql c \<noteq> ''ATTACH DATABASE 'other.db' AS other'')
        (drop (length (calls fresh_process))
           (calls (snd (transaction_tool journal_driver
              [''INSERT INTO t(a) VALUES (1)'', ''ATTACH DATABASE 'other.db' AS other'']
              fresh_process))))"
proof -
  have 1: "toLowerCase (trim ''ATTACH DATABASE 'other.db' AS other'')
             = [] @ ''attach'' @ '' '' @ ''database 'other.db' as other''"
    by code_simp
  have 2: "'' '' \<noteq> []" by simp
  have 3: "list_all isWhiteSpace '' ''" by (simp add: isWhiteSpace_def)
  have 4: "''attach'' = ''pragma''
             \<and> list_all (\<lambda>l. \<not> prefix l ''database 'other.db' as other'') allowedPragmas
         \<or> ''attach'' \<in> {''attach'', ''detach''}
             \<and> prefix ''database'' ''database 'other.db' as other''"
    by simp
  show ?thesis
    by (rule rejected_text_is_not_prepared[OF 1 2 3 4])
qed

text \<open>
  The claim as first stated, that no tool ever passes such a statement to the driver,
  fails: for an existing table \<^verbatim>\<open>users\<close> the describe-table tool itself prepares
  \<^verbatim>\<open>PRAGMA index_list(users)\<close> and \<^verbatim>\<open>PRAGMA foreign_key_list(users)\<close>, texts that the
  validator rejects; the tools that build their own statements do not consult it.
\<close>

theorem describe_table_runs_other_pragmas_counterexample:
  "validateSqlQuery ''PRAGMA index_list(users)'' =
           \<lparr>isValid = False, isReadOnly = False,
            error = Some ''Dangerous SQL operation detected''\<rparr>
   \<and> calls (snd (describe_table_tool journal_driver ''users'' fresh_process)) =
       [PrepareGet tableExistsSql [JStr ''users''],
        PrepareAll ''PRAGMA table_info(users)'' [],
        PrepareAll ''PRAGMA index_list(users)'' [],
        PrepareAll ''PRAGMA foreign_key_list(users)'' []]"
  by code_simp

section \<open>Claim C3: the query tool and mutating text\<close>

text \<open>
  Claim C3. For every text that the validator accepts and classifies as mutating, the
  query tool answers with the error envelope and leaves the whole state as it was: the
  connection is not even acquired, nothing reaches the driver and the stored data is
  unchanged.
\<close>

theorem query_refuses_mutating_text:
  assumes "isValid (validateSqlQuery sql)" and "\<not> isReadOnly (validateSqlQuery sql)"
  shows "query_tool drv sql w =
    (Inr \<lparr>content = [Text (''Database error: Only read-only queries are allowed. ''
                         @ ''Use 'execute' tool for write operations.'')],
          isError = True\<rparr>, w)"
  using assms by (simp add: query_tool_def try_catch_def handleDatabaseError_def)

text \<open>The theorem at \<^verbatim>\<open>UPDATE t SET x=1\<close>.\<close>

theorem query_refuses_mutating_text_witness:
  "isValid (validateSqlQuery ''UPDATE t SET x=1'')
   \<and> \<not> isReadOnly (validateSqlQuery ''UPDATE t SET x=1'')
   \<and> query_tool journal_driver ''UPDATE t SET x=1'' fresh_process =
    (Inr \<lparr>content = [Text (''Database error: Only read-only queries are allowed. ''
                         @ ''Use 'execute' tool for write operations.'')],
          isError = True\<rparr>, fresh_process)"
proof -
  have 1: "isValid (validateSqlQuery ''UPDATE t SET x=1'')" by code_simp
  have 2: "\<not> isReadOnly (validateSqlQuery ''UPDATE t SET x=1'')" by code_simp
  from query_refuses_mutating_text[OF 1 2, of journal_driver fresh_process] 1 2
  show ?thesis by (intro conjI)
qed

section \<open>Claim C5: errors and the handler boundary\<close>

lemma transaction_tool_open_failure:
  assumes "\<not> db w"
    and "openDatabase drv (DEFAULT_DB_PATH (env_SQLITE_DB_PATH w)) = Some e"
  shows "transaction_tool drv statements w = (Inl e, w)"
  using assms by (simp add: transaction_tool_def getDatabase_def initializeDatabase_def)

text \<open>
  Claim C5 does not hold for the transaction tool. Its handler calls \<^verbatim>\<open>getDatabase\<close>
  before its \<^verbatim>\<open>try\<close>, so when the database file cannot be opened the error leaves the
  handler; the execute tool, like the other handlers, acquires the connection inside
  its \<^verbatim>\<open>try\<close> and answers with the envelope.
\<close>

theorem transaction_open_failure_escapes:
  "transaction_tool unopenable_driver [''SELECT 1''] fresh_process =
     (Inl (Error ''unable to open database file''), fresh_process)
   \<and> execute_tool unopenable_driver ''SELECT 1'' fresh_process =
     (Inr \<lparr>content = [Text ''Database error: unable to open database file''],
           isError = True\<rparr>, fresh_process)"
  by code_simp

text \<open>The other nine handlers return a response whatever happens.\<close>

lemma try_catch_returns: "\<exists>r. fst (try_catch m) = Inr r"
  by (cases m; cases "fst m") (auto simp: try_catch_def)

lemma other_handlers_catch:
  "\<exists>r. fst (query_tool drv sql w) = Inr r"
  "\<exists>r. fst (execute_tool drv sql w) = Inr r"
  "\<exists>r. fst (describe_table_tool drv tableName w) = Inr r"
  "\<exists>r. fst (list_tables_tool drv w) = Inr r"
  "\<exists>r. fst (create_table_tool drv table columns ifNotExists w) = Inr r"
  "\<exists>r. fst (drop_table_tool drv table ifExists w) = Inr r"
  "\<exists>r. fst (insert_record_tool drv table data w) = Inr r"
  "\<exists>r. fst (update_record_tool drv table data where_clause w) = Inr r"
  "\<exists>r. fst (delete_record_tool drv table where_clause w) = Inr r"
  unfolding query_tool_def execute_tool_def describe_table_tool_def list_tables_tool_def
    create_table_tool_def drop_table_tool_def insert_record_tool_def update_record_tool_def
    delete_record_tool_def
  by (rule try_catch_returns)+

section \<open>Claim C9: describing a table that does not exist\<close>

text \<open>
  Claim C9. Let the connection be available and let the lookup in \<^verbatim>\<open>sqlite_master\<close>,
  with the table name bound as its parameter, find no row and change nothing. Then
  describe-table answers with the error envelope whose message is
  \<^verbatim>\<open>Table '<tableName>' does not exist\<close> (behind the prefix that \<^verbatim>\<open>handleDatabaseError\<close>
  puts before every message), the lookup is the only statement handed to the driver, so
  no introspection pragma is run, and the stored data is unchanged.
\<close>

theorem describe_missing_table:
  assumes conn: "fst (getDatabase drv w) = Inr ()"
    and lookup: "prepare_get drv tableExistsSql [JStr tableName] (store w) = (Inr None, store w)"
  shows "fst (describe_table_tool drv tableName w) =
           Inr \<lparr>content = [Text (''Database error: '' @
                   (''Table '' @ [CHR 0x27] @ tableName @ [CHR 0x27] @ '' does not exist''))],
                isError = True\<rparr>
       \<and> calls (snd (describe_table_tool drv tableName w)) =
           calls w @ [PrepareGet tableExistsSql [JStr tableName]]
       \<and> store (snd (describe_table_tool drv tableName w)) = store w"
proof -
  obtain w1 where g: "getDatabase drv w = (Inr (), w1)"
    using conn by (cases "getDatabase drv w") auto
  then have f: "store w1 = store w" "calls w1 = calls w"
    using getDatabase_Inr by blast+
  with lookup have "stmt_get drv tableExistsSql [JStr tableName] w1 =
      (Inr None, w1\<lparr>store := store w, calls := calls w @ [PrepareGet tableExistsSql [JStr tableName]]\<rparr>)"
    by (simp add: stmt_get_def)
  with g show ?thesis
    by (simp add: describe_table_tool_def try_catch_def handleDatabaseError_def)
qed

text \<open>The theorem at a table name that the stand-in engine does not know.\<close>

theorem describe_missing_table_witness:
  "fst (describe_table_tool journal_driver ''orders'' fresh_process) =
           Inr \<lparr>content = [Text ''Database error: Table 'orders' does not exist''],
                isError = True\<rparr>
       \<and> calls (snd (describe_table_tool journal_driver ''orders'' fresh_process)) =
           calls fresh_process @ [PrepareGet tableExistsSql [JStr ''orders'']]
       \<and> store (snd (describe_table_tool journal_driver ''orders'' fresh_process))
           = store fresh_process"
proof -
  have conn: "fst (getDatabase journal_driver fresh_process) = Inr ()"
    by code_simp
  have lookup: "prepare_get journal_driver tableExistsSql [JStr ''orders''] (store fresh_process)
      = (Inr None, store fresh_process)"
    by code_simp
  from describe_missing_table[OF conn lookup] show ?thesis by simp
qed

section \<open>Claim C10: the disallowed patterns match anywhere in the text\<close>

text \<open>
  Claim C10, as amended. The check for disallowed patterns is not anchored: whatever
  precedes it (\<open>pre\<close>), a normalized text that holds \<^verbatim>\<open>pragma\<close>, white space and then
  something that does not begin with an allow-listed name, or \<^verbatim>\<open>attach\<close> or
  \<^verbatim>\<open>detach\<close>, white space and \<^verbatim>\<open>database\<close>, is invalid for the validator, and each
  tool that validates its SQL text refuses it: query and execute answer with the error
  envelope and change nothing, and the transaction tool refuses every batch that holds
  it anywhere.
\<close>

theorem unanchored_check_refuses:
  assumes "toLowerCase (trim sql) = pre @ kw @ ws @ rest"
    and "ws \<noteq> []" and "list_all isWhiteSpace ws"
    and "kw = ''pragma'' \<and> list_all (\<lambda>l. \<not> prefix l rest) allowedPragmas
         \<or> kw \<in> {''attach'', ''detach''} \<and> prefix ''database'' rest"
  shows "\<not> isValid (validateSqlQuery sql)
       \<and> query_tool drv sql w =
           (Inr \<lparr>content = [Text ''Database error: Dangerous SQL operation detected''],
                 isError = True\<rparr>, w)
       \<and> execute_tool drv sql w =
           (Inr \<lparr>content = [Text ''Database error: Dangerous SQL operation detected''],
                 isError = True\<rparr>, w)
       \<and> is_refusal (fst (transaction_tool drv (before @ sql # after) w))"
proof -
  have d: "list_ex (\<lambda>p. test p (toLowerCase (trim sql))) dangerousPatterns"
    using assms by (rule shape_dangerous)
  then have inv: "\<not> isValid (validateSqlQuery sql)"
    by (simp add: isValid_iff)
  with rejected_by_query[OF inv, of drv w] rejected_by_execute[OF inv, of drv w]
    transaction_tool_rejected[OF inv, of drv before after w]
  show ?thesis by (simp add: handleDatabaseError_def)
qed

text \<open>The theorem at a \<^verbatim>\<open>SELECT\<close> whose string literal holds the words.\<close>

theorem unanchored_check_refuses_witness:
  "\<not> isValid (validateSqlQuery ''SELECT 'please detach  database' AS note'')
   \<and> query_tool journal_driver ''SELECT 'please detach  database' AS note'' fresh_process =
       (Inr \<lparr>content = [Text ''Database error: Dangerous SQL operation detected''],
             isError = True\<rparr>, fresh_process)
   \<and> execute_tool journal_driver ''SELECT 'please detach  database' AS note'' fresh_process =
       (Inr \<lparr>content = [Text ''Database error: Dangerous SQL operation detected''],
             isError = True\<rparr>, fresh_process)
   \<and> is_refusal (fst (transaction_tool journal_driver
        ([''INSERT INTO t(a) VALUES (1)''] @ ''SELECT 'please detach  database' AS note'' # [])
        fresh_process))"
proof -
  have 1: "toLowerCase (trim ''SELECT 'please detach  database' AS note'')
             = ''select 'please '' @ ''detach'' @ ''  '' @ ''database' as note''"
    by code_simp
  have 2: "''  '' \<noteq> []" by simp
  have 3: "list_all isWhiteSpace ''  ''" by (simp add: isWhiteSpace_def)
  have 4: "''detach'' = ''pragma''
             \<and> list_all (\<lambda>l. \<not> prefix l ''database' as note'') allowedPragmas
         \<or> ''detach'' \<in> {''attach'', ''detach''}
             \<and> prefix ''database'' ''database' as note''"
    by simp
  show ?thesis
    by (rule unanchored_check_refuses[OF 1 2 3 4])
qed

text \<open>
  The claim as first stated, that every tool refuses such text, fails for the tools that
  build their own statement and never call the validator: delete-record takes a
  \<^verbatim>\<open>where\<close> text that holds \<^verbatim>\<open>attach database\<close> inside a string literal, which the
  validator rejects, and runs the statement built from it.
\<close>

theorem where_clause_is_not_validated_counterexample:
  "\<not> isValid (validateSqlQuery ''note = 'attach database' AND id = 1'')
   \<and> delete_record_tool journal_driver ''t'' ''note = 'attach database' AND id = 1''
       fresh_process =
       (Inr (success (JObj
          [(''message'', JStr ''Records deleted successfully''),
           (''changes'', JNum 1),
           (''sql'', JStr ''DELETE FROM t WHERE note = 'attach database' AND id = 1'')])),
        \<lparr>env_SQLITE_DB_PATH = None, db = True,
         store = ([(''DELETE FROM t WHERE note = 'attach database' AND id = 1'', [])], []),
         calls = [PrepareRun ''DELETE FROM t WHERE note = 'attach database' AND id = 1'' []]\<rparr>)"
  by code_simp

section \<open>Claim C4: a failing transaction batch\<close>





section \<open>Claim C6: the statement and the values of insert-record\<close>








section \<open>Claim C7: the create-table statement\<close>

lemma columnDefinition_spec: "columnDefinition col = spec_column_clause col"
  by (cases "primaryKey col"; cases "notNull col"; cases "unique col"; cases "defaultValue col")
     (simp_all add: columnDefinition_def spec_column_clause_def Let_def)

text \<open>
  Claim C7. For every request, the statement that create-table builds, hands to the
  driver and returns in its response is the one the specification words: per column the
  name and the type, then \<^verbatim>\<open>PRIMARY KEY\<close>, \<^verbatim>\<open>NOT NULL\<close>, \<^verbatim>\<open>UNIQUE\<close> and
  \<^verbatim>\<open>DEFAULT <value>\<close> in this order for the flags that are true and a default value
  that is a non-empty string, the clauses joined by a comma and a space inside
  \<^verbatim>\<open>CREATE TABLE [IF NOT EXISTS] <name> (...)\<close>. The flag \<^verbatim>\<open>ifNotExists\<close> counts as
  true unless it is given as false, so a call without it asks for \<^verbatim>\<open>IF NOT EXISTS\<close>.
  With the connection available the handler makes exactly one driver call, the run of
  that statement without parameters, and answers with the statement and the driver's
  count of changes, or with the driver's error.
\<close>

theorem create_table_statement:
  assumes conn: "getDatabase drv w = (Inr (), w1)"
    and run: "prepare_run drv
                (spec_create_table table_name columns (ifNotExists \<noteq> Some False)) []
                (store w) = (r, s)"
  shows "create_table_tool drv table_name columns ifNotExists w =
           (Inr (case r of
                   Inl e \<Rightarrow> handleDatabaseError e
                 | Inr info \<Rightarrow> success (JObj
                     [(''message'', JStr (''Table '' @ [CHR 0x27] @ table_name @ [CHR 0x27]
                         @ '' created successfully'')),
                      (''sql'', JStr (spec_create_table table_name columns
                                        (ifNotExists \<noteq> Some False))),
                      (''changes'', JNum (changes info))])),
            w1\<lparr>store := s,
               calls := calls w
                 @ [PrepareRun (spec_create_table table_name columns
                                  (ifNotExists \<noteq> Some False)) []]\<rparr>)"
proof -
  have "columnDefinition = spec_column_clause"
    by (rule ext) (rule columnDefinition_spec)
  then have stmt: "createStatement table_name columns (default_true ifNotExists)
     = spec_create_table table_name columns (ifNotExists \<noteq> Some False)"
    by (cases ifNotExists) (auto simp: createStatement_def spec_create_table_def)
  from conn have f: "store w1 = store w" "calls w1 = calls w"
    using getDatabase_Inr by blast+
  with run have "stmt_run drv
      (spec_create_table table_name columns (ifNotExists \<noteq> Some False)) [] w1 =
      (r, w1\<lparr>store := s,
             calls := calls w
               @ [PrepareRun (spec_create_table table_name columns
                                (ifNotExists \<noteq> Some False)) []]\<rparr>)"
    by (simp add: stmt_run_def)
  with conn stmt show ?thesis
    by (cases r) (simp_all add: create_table_tool_def try_catch_def Let_def)
qed

text \<open>The theorem at a two-column table with every clause and the flag omitted.\<close>

theorem create_table_statement_witness:
  "create_table_tool journal_driver ''t2''
     [\<lparr>name = ''id'', type = ''INTEGER'', primaryKey = Some True, notNull = None,
       unique = None, defaultValue = None\<rparr>,
      \<lparr>name = ''label'', type = ''TEXT'', primaryKey = None, notNull = Some True,
       unique = Some True, defaultValue = Some ''0''\<rparr>]
     None fresh_process
   = (Inr (success (JObj
        [(''message'', JStr ''Table 't2' created successfully''),
         (''sql'', JStr ''CREATE TABLE IF NOT EXISTS t2 (id INTEGER PRIMARY KEY, label TEXT NOT NULL UNIQUE DEFAULT 0)''),
         (''changes'', JNum 1)])),
      \<lparr>env_SQLITE_DB_PATH = None, db = True,
       store = ([(''CREATE TABLE IF NOT EXISTS t2 (id INTEGER PRIMARY KEY, label TEXT NOT NULL UNIQUE DEFAULT 0)'', [])], []),
       calls = [PrepareRun ''CREATE TABLE IF NOT EXISTS t2 (id INTEGER PRIMARY KEY, label TEXT NOT NULL UNIQUE DEFAULT 0)'' []]\<rparr>)"
proof -
  let ?cols = "[\<lparr>name = ''id'', type = ''INTEGER'', primaryKey = Some True, notNull = None,
       unique = None, defaultValue = None\<rparr>,
      \<lparr>name = ''label'', type = ''TEXT'', primaryKey = None, notNull = Some True,
       unique = Some True, defaultValue = Some ''0''\<rparr>]"
  let ?sql = "''CREATE TABLE IF NOT EXISTS t2 (id INTEGER PRIMARY KEY, label TEXT NOT NULL UNIQUE DEFAULT 0)''"
  have sql: "spec_create_table ''t2'' ?cols (None \<noteq> Some False) = ?sql"
    by code_simp
  have conn: "getDatabase journal_driver fresh_process = (Inr (), fresh_process\<lparr>db := True\<rparr>)"
    by code_simp
  have "prepare_run journal_driver ?sql [] (store fresh_process)
          = (Inr \<lparr>changes = 1, lastInsertRowid = 1\<rparr>, ([(?sql, [])], []))"
    by code_simp
  with sql have run: "prepare_run journal_driver
      (spec_create_table ''t2'' ?cols (None \<noteq> Some False)) [] (store fresh_process)
          = (Inr \<lparr>changes = 1, lastInsertRowid = 1\<rparr>, ([(?sql, [])], []))"
    by (simp only:)
  have c: "calls fresh_process = []" "fresh_process\<lparr>db := True\<rparr>
      = \<lparr>env_SQLITE_DB_PATH = None, db = True, store = ([], []), calls = []\<rparr>"
    by (simp_all add: fresh_process_def)
  have q: "''Table '' @ [CHR 0x27] @ ''t2'' @ [CHR 0x27] @ '' created successfully''
             = ''Table 't2' created successfully''"
    by simp
  from create_table_statement[OF conn run] sql c q
  show ?thesis by simp
qed

section \<open>Claim C8: the path and the flags of the command line\<close>







lemma cli_path_is_not_the_path_opened:
  "process_env (snd (cli [''--db'', ''./my.db''] (import_index None s))) = Some ''./my.db''
   \<and> DEFAULT_DB_PATH (env_SQLITE_DB_PATH
        (server (snd (cli [''--db'', ''./my.db''] (import_index None s))))) = ''./database.db''"
  by (simp add: cli_def parseArgs_def import_index_def DEFAULT_DB_PATH_def)




end
